theory Spec2Isabelle
  imports
    Complex_Main
    "HOL-Library.Multiset"
    "HOL-Library.Char_ord"
    "HOL-Library.List_Lexorder"
begin

section \<open>Dashboard options of the chart block (ChartBlock.vue)\<close>

text \<open>
  A row of a list resource as the components read it: the record's identifier
  \<open>name\<close> and its display \<open>title\<close>.  Dashboards and notebooks are both
  read through these two fields only.
\<close>

record row =
  name :: string
  title :: string

text \<open>The reactive list resource (\<open>useDashboards()\<close>, \<open>useNotebooks()\<close>): the
  components below touch its \<open>list\<close> only.\<close>

record list_resource =
  list :: "row list"

text \<open>An entry handed to the autocomplete: \<open>{ label: d.title, value: d.name }\<close>.\<close>

record dropdown_option =
  label :: string
  val :: string

text \<open>
  \<open>String.prototype.toLowerCase\<close> on the ASCII range: the letters \<open>A\<close> to \<open>Z\<close>
  (codes 65 to 90) move to \<open>a\<close> to \<open>z\<close>, every other character stays.
\<close>

definition lower_char :: "char \<Rightarrow> char" where
  "lower_char c =
     (let n = (of_char c :: nat) in if 65 \<le> n \<and> n \<le> 90 then char_of (n + 32) else c)"

definition toLowerCase :: "string \<Rightarrow> string" where
  "toLowerCase s = map lower_char s"

text \<open>
  The comparator of the source,
  \<^verbatim>\<open>(a, b) => a.title.toLowerCase() < b.title.toLowerCase() ? -1 : 1\<close>.
  It never answers 0.  \<open><\<close> on strings is the lexicographic order on the
  characters' codes.
\<close>

definition title_compare :: "row \<Rightarrow> row \<Rightarrow> int" where
  "title_compare a b = (if toLowerCase (title a) < toLowerCase (title b) then - 1 else 1)"

text \<open>
  \<open>Array.prototype.sort(comparefn)\<close>, as an insertion sort that reads only the
  sign of the comparator: each element goes in front of the first element of the
  sorted prefix it is smaller than (\<open>comparefn(x, y) < 0\<close>), else behind all of
  them.  The array is sorted in place: the caller's array is the result.
\<close>

fun sort_insert :: "('a \<Rightarrow> 'a \<Rightarrow> int) \<Rightarrow> 'a \<Rightarrow> 'a list \<Rightarrow> 'a list" where
  "sort_insert comparefn x [] = [x]"
| "sort_insert comparefn x (y # ys) =
     (if comparefn x y < 0 then x # y # ys else y # sort_insert comparefn x ys)"

definition array_sort :: "('a \<Rightarrow> 'a \<Rightarrow> int) \<Rightarrow> 'a list \<Rightarrow> 'a list" where
  "array_sort comparefn xs = foldl (\<lambda>acc x. sort_insert comparefn x acc) [] xs"

text \<open>
  The computed property
  \<^verbatim>\<open>dashboards.list.sort(...).map((d) => ({ label: d.title, value: d.name }))\<close>.
  \<open>sort\<close> works on \<open>dashboards.list\<close> itself, so the evaluation returns the
  options together with the resource whose list is now the sorted one.
\<close>

definition to_option :: "row \<Rightarrow> dropdown_option" where
  "to_option d = \<lparr>label = title d, val = name d\<rparr>"

definition dashboardOptions :: "list_resource \<Rightarrow> dropdown_option list \<times> list_resource" where
  "dashboardOptions dashboards =
     (let sorted_list = array_sort title_compare (list dashboards)
      in (map to_option sorted_list, dashboards\<lparr>list := sorted_list\<rparr>))"

section \<open>Document resources (api: \<open>getDocumentResource\<close>)\<close>

text \<open>
  The values an options object of \<open>createDocumentResource\<close> holds: strings, a
  table of whitelisted methods (whatever \<open>getWhitelistedMethods\<close> returns, of
  type \<open>'m\<close>), or some other value the model does not look into.
\<close>

datatype 'm jsval = Str string | Methods 'm | Opaque nat

type_synonym 'm js_object = "string \<rightharpoonup> 'm jsval"

text \<open>\<open>...options\<close> with \<open>options?: object\<close>: spreading \<open>undefined\<close> adds no key.\<close>

definition spread :: "'m js_object option \<Rightarrow> 'm js_object" where
  "spread options = (case options of None \<Rightarrow> Map.empty | Some obj \<Rightarrow> obj)"

text \<open>Truthiness of an optional string: \<open>undefined\<close> and \<open>''\<close> are falsy.\<close>

fun truthy :: "string option \<Rightarrow> bool" where
  "truthy None = False"
| "truthy (Some s) = (s \<noteq> [])"

text \<open>\<open>docname || doctype\<close>.\<close>

definition or_else :: "string option \<Rightarrow> string \<Rightarrow> string" where
  "or_else docname doctype =
     (case docname of None \<Rightarrow> doctype | Some n \<Rightarrow> if truthy (Some n) then n else doctype)"

text \<open>
  The object literal handed to \<open>createDocumentResource\<close>:
  \<^verbatim>\<open>{ doctype: doctype, name: docname || doctype,
     whitelistedMethods: getWhitelistedMethods(doctype), ...options }\<close>.
  The spread comes last, so a key of \<open>options\<close> replaces the key written before
  it.  \<open>getWhitelistedMethods\<close> (module \<open>./whitelistedMethods\<close>) is a parameter.
\<close>

definition resource_options ::
  "(string \<Rightarrow> 'm) \<Rightarrow> string \<Rightarrow> string option \<Rightarrow> 'm js_object option \<Rightarrow> 'm js_object" where
  "resource_options getWhitelistedMethods doctype docname options =
     [''doctype'' \<mapsto> Str doctype,
      ''name'' \<mapsto> Str (or_else docname doctype),
      ''whitelistedMethods'' \<mapsto> Methods (getWhitelistedMethods doctype)]
     ++ spread options"

text \<open>
  Modelled from the spec: \<open>createDocumentResource\<close> and the \<open>get\<close> resource it
  builds belong to the resource client library, which is not part of the
  sources.  The spec gives a document resource a loading flag that is set while
  a fetch is in flight ("a stalled request leaves the loading flag set
  indefinitely").  \<open>inflight\<close> counts the remote get calls issued and not yet
  settled, \<open>issued\<close> all remote get calls so far.
\<close>

record get_state =
  loading :: bool
  inflight :: nat
  issued :: nat

record 'm document_resource =
  config :: "'m js_object"
  get :: get_state

definition createDocumentResource :: "'m js_object \<Rightarrow> 'm document_resource" where
  "createDocumentResource opts =
     \<lparr>config = opts, get = \<lparr>loading = False, inflight = 0, issued = 0\<rparr>\<rparr>"

text \<open>\<open>resource.get.fetch()\<close>: one remote call goes out and the flag is raised.\<close>

definition fetch :: "'m document_resource \<Rightarrow> 'm document_resource" where
  "fetch r = r\<lparr>get := (get r)\<lparr>loading := True,
                                 inflight := Suc (inflight (get r)),
                                 issued := Suc (issued (get r))\<rparr>\<rparr>"

text \<open>The pending call settles (resolves or rejects): the flag is lowered.  Without a
  pending call there is nothing to settle.\<close>

definition settle :: "'m document_resource \<Rightarrow> 'm document_resource" where
  "settle r =
     (if inflight (get r) = 0 then r
      else r\<lparr>get := (get r)\<lparr>loading := False, inflight := inflight (get r) - 1\<rparr>\<rparr>)"

text \<open>
  \<^verbatim>\<open>resource.triggerFetch = async () => {
     !resource.get.loading && (await resource.get.fetch()) }\<close>:
  the flag is read when the call is made, and \<open>fetch\<close> is called only if it is down.
\<close>

definition triggerFetch :: "'m document_resource \<Rightarrow> 'm document_resource" where
  "triggerFetch r = (if \<not> loading (get r) then fetch r else r)"

definition getDocumentResource ::
  "(string \<Rightarrow> 'm) \<Rightarrow> string \<Rightarrow> string option \<Rightarrow> 'm js_object option \<Rightarrow> 'm document_resource" where
  "getDocumentResource getWhitelistedMethods doctype docname options =
     createDocumentResource (resource_options getWhitelistedMethods doctype docname options)"

text \<open>What happens to a resource over time: a caller triggers a fetch, or the pending
  remote call settles.\<close>

datatype resource_event = TriggerFetch | Settle

fun resource_step :: "'m document_resource \<Rightarrow> resource_event \<Rightarrow> 'm document_resource" where
  "resource_step r TriggerFetch = triggerFetch r"
| "resource_step r Settle = settle r"

definition resource_run :: "'m document_resource \<Rightarrow> resource_event list \<Rightarrow> 'm document_resource" where
  "resource_run r evs = foldl resource_step r evs"

text \<open>The loading flag tells whether a call is pending, and at most one is.\<close>

definition single_flight :: "'m document_resource \<Rightarrow> bool" where
  "single_flight r = (loading (get r) = (inflight (get r) = 1) \<and> inflight (get r) \<le> 1)"

text \<open>An example whitelist table, to run the model on concrete inputs.\<close>

definition example_methods :: "string \<Rightarrow> string list" where
  "example_methods doctype = (if doctype = ''Insights Query'' then [''run'', ''store''] else [])"

section \<open>Chart block set-up (ChartBlock.vue)\<close>

text \<open>
  What the first lines of the set-up do, in order: the remote \<open>createChart()\<close>
  call, the \<open>setChartName\<close> event, the binding \<open>useChart(name)\<close>,
  \<open>chart.enableAutoSave()\<close> and \<open>provide('chart', chart)\<close>.
\<close>

datatype chart_effect =
  CreateChart | EmitSetChartName string | UseChart string | EnableAutoSave | ProvideChart

text \<open>The branch \<open>!props.chartName\<close>.  \<open>new_chart\<close> is what \<open>await createChart()\<close>
  gives: \<open>Inr\<close> the new chart's name, or \<open>Inl\<close> the rejection, which ends the
  set-up.\<close>

definition create_and_bind :: "'e + string \<Rightarrow> chart_effect list \<times> ('e + string)" where
  "create_and_bind new_chart =
     (case new_chart of
        Inl err \<Rightarrow> ([CreateChart], Inl err)
      | Inr chartName \<Rightarrow>
          ([CreateChart, EmitSetChartName chartName, UseChart chartName,
            EnableAutoSave, ProvideChart], Inr chartName))"

text \<open>The branch \<open>else\<close>: \<open>chart = useChart(props.chartName)\<close>.\<close>

definition bind_existing :: "string \<Rightarrow> chart_effect list \<times> ('e + string)" where
  "bind_existing chartName = ([UseChart chartName, EnableAutoSave, ProvideChart], Inr chartName)"

text \<open>
  \<^verbatim>\<open>if (!props.chartName) { ... } else { ... }\<close> on the prop
  \<open>chartName: String\<close>: absent, or a string, of which the empty one is falsy.
  The result is the effects in order and the name the chart is bound to.
\<close>

fun chart_setup :: "string option \<Rightarrow> 'e + string \<Rightarrow> chart_effect list \<times> ('e + string)" where
  "chart_setup None new_chart = create_and_bind new_chart"
| "chart_setup (Some chartName) new_chart =
     (if chartName = [] then create_and_bind new_chart else bind_existing chartName)"

section \<open>Deleting a notebook (Notebook.vue)\<close>

text \<open>The remote calls, the writes to \<open>showDeleteDialog\<close> and the navigations of
  the page, in the order they happen.\<close>

datatype notebook_effect =
  DeleteNotebook | SetShowDeleteDialog bool | ReloadNotebooks | RouterPush string

text \<open>
  The page: the dialog flag, the notebook resource of \<open>useNotebook(props.notebook)\<close>
  (type \<open>'n\<close>), the shared notebooks list of \<open>useNotebooks()\<close> (type \<open>'l\<close>),
  the current route and the log of effects.
\<close>

record ('n, 'l) notebook_page =
  showDeleteDialog :: bool
  notebook :: 'n
  all_notebooks :: 'l
  route :: string
  effects :: "notebook_effect list"

text \<open>
  \<^verbatim>\<open>async function handleDelete() {
     await notebook.deleteNotebook()
     showDeleteDialog.value = false
     await useNotebooks().reload()
     router.push({ name: 'NotebookList' }) }\<close>
  \<open>deleteNotebook\<close> and \<open>reload\<close> (modules \<open>useNotebook\<close>, \<open>useNotebooks\<close>)
  are parameters: each returns the resource after the call and the rejection,
  if any.  A rejected \<open>await\<close> ends the function there.
\<close>

definition handleDelete ::
  "('n \<Rightarrow> 'e option \<times> 'n) \<Rightarrow> ('l \<Rightarrow> 'e option \<times> 'l) \<Rightarrow>
   ('n, 'l) notebook_page \<Rightarrow> 'e option \<times> ('n, 'l) notebook_page" where
  "handleDelete deleteNotebook reload page =
     (let (deleted, nb) = deleteNotebook (notebook page);
          p1 = page\<lparr>notebook := nb, effects := effects page @ [DeleteNotebook]\<rparr>
      in case deleted of
           Some err \<Rightarrow> (Some err, p1)
         | None \<Rightarrow>
             (let p2 = p1\<lparr>showDeleteDialog := False,
                           effects := effects p1 @ [SetShowDeleteDialog False]\<rparr>;
                  (reloaded, nbs) = reload (all_notebooks p2);
                  p3 = p2\<lparr>all_notebooks := nbs, effects := effects p2 @ [ReloadNotebooks]\<rparr>
              in case reloaded of
                   Some err \<Rightarrow> (Some err, p3)
                 | None \<Rightarrow>
                     (None, p3\<lparr>route := ''NotebookList'',
                                effects := effects p3 @ [RouterPush ''NotebookList'']\<rparr>)))"

text \<open>The Cancel button: \<^verbatim>\<open>@click="showDeleteDialog = false"\<close>.\<close>

definition cancelDelete :: "('n, 'l) notebook_page \<Rightarrow> ('n, 'l) notebook_page" where
  "cancelDelete page =
     page\<lparr>showDeleteDialog := False, effects := effects page @ [SetShowDeleteDialog False]\<rparr>"

text \<open>Example resources, to run the model: a notebook is its list of pages, the
  notebooks list a list of names; the remote calls succeed.\<close>

definition example_deleteNotebook :: "string list \<Rightarrow> unit option \<times> string list" where
  "example_deleteNotebook pages = (None, [])"

definition example_reload :: "string list \<Rightarrow> unit option \<times> string list" where
  "example_reload names = (None, [''Uncategorized''])"

section \<open>Toast notifications (Toast.vue)\<close>

text \<open>
  A toast instance with the timers it has started.  \<open>shown\<close> is the component's
  only data field; \<open>clock\<close> is the time in milliseconds, \<open>timers\<close> the due times
  of the \<open>setTimeout\<close> callbacks still pending, \<open>fired\<close> the number of callbacks
  that have run.  The prop \<open>timeout\<close> is a number of seconds.
\<close>

record toast =
  shown :: bool
  clock :: real
  timers :: "real list"
  fired :: nat

text \<open>\<^verbatim>\<open>data() { return { shown: false } }\<close>, at time 0 with no timer.\<close>

definition data :: toast where
  "data = \<lparr>shown = False, clock = 0, timers = [], fired = 0\<rparr>"

text \<open>
  \<^verbatim>\<open>mounted() { this.shown = true
     setTimeout(() => { this.shown = false }, this.timeout * 1000) }\<close>.
  \<open>setTimeout\<close> takes a negative delay as 0.  The timer's handle is dropped:
  nothing can cancel it.
\<close>

definition mounted :: "real \<Rightarrow> toast \<Rightarrow> toast" where
  "mounted timeout t =
     t\<lparr>shown := True, timers := timers t @ [clock t + max 0 (timeout * 1000)]\<rparr>"

text \<open>The close button: \<^verbatim>\<open>@click="shown = false"\<close>.\<close>

definition dismiss :: "toast \<Rightarrow> toast" where
  "dismiss t = t\<lparr>shown := False\<rparr>"

text \<open>The timer's callback: \<^verbatim>\<open>() => { this.shown = false }\<close>.\<close>

definition timer_callback :: "toast \<Rightarrow> toast" where
  "timer_callback t = t\<lparr>shown := False, fired := Suc (fired t)\<rparr>"

text \<open>\<open>d\<close> milliseconds pass: every pending callback that is due by then runs, once.\<close>

definition elapse :: "real \<Rightarrow> toast \<Rightarrow> toast" where
  "elapse d t =
     (let now = clock t + d;
          due = filter (\<lambda>due_at. due_at \<le> now) (timers t);
          later = filter (\<lambda>due_at. \<not> due_at \<le> now) (timers t)
      in foldl (\<lambda>s due_at. timer_callback s) (t\<lparr>clock := now, timers := later\<rparr>) due)"

text \<open>
  The document, as the ids of its elements in document order.
  \<^verbatim>\<open>created() { if (!document.getElementById('frappeui-toast-root')) {
       const root = document.createElement('div'); root.id = 'frappeui-toast-root'
       ...; document.body.appendChild(root) } }\<close>
\<close>

definition created :: "string list \<Rightarrow> string list" where
  "created document =
     (if ''frappeui-toast-root'' \<notin> set document then document @ [''frappeui-toast-root'']
      else document)"

section \<open>Opening a query editor (query list page)\<close>

text \<open>A failure of \<open>openQueryEditor\<close>: the \<open>TypeError\<close> of reading a property of
  \<open>undefined\<close>, or the rejection of a remote call.\<close>

datatype 'e failure = TypeError | Rejection 'e

text \<open>The remote calls and navigations of \<open>openQueryEditor\<close>:
  \<open>notebooks.createPage(name)\<close>, \<open>queries.create(new_query)\<close> with the value of
  \<open>is_assisted_query\<close> if set, and \<open>router.push\<close> with the route's name and
  parameters.\<close>

datatype query_effect =
  CreatePage string | CreateQuery "nat option" | Push string "(string \<times> string) list"

text \<open>
  \<^verbatim>\<open>async function openQueryEditor(type) {
     if (type === 'notebook') {
       const uncategorized = notebooks.list.find((notebook) => notebook.title === 'Uncategorized')
       const page_name = await notebooks.createPage(uncategorized.name)
       return router.push({ name: 'NotebookPage',
                            params: { notebook: uncategorized.name, page: page_name } })
     }
     const new_query = {}
     if (type === 'visual') new_query.is_assisted_query = 1
     if (type === 'classic') new_query.is_assisted_query = 0
     const query = await queries.create(new_query)
     router.push({ name: 'QueryBuilder', params: { name: query.name } }) }\<close>
  \<open>find\<close> gives \<open>undefined\<close> when no element matches, and \<open>uncategorized.name\<close>
  then throws before \<open>createPage\<close> is called.  \<open>createPage\<close> and \<open>create\<close> are
  parameters: \<open>Inr\<close> the value the call resolves with, \<open>Inl\<close> its rejection.
\<close>

definition openQueryEditor ::
  "(string \<Rightarrow> 'e + string) \<Rightarrow> (nat option \<Rightarrow> 'e + row) \<Rightarrow> list_resource \<Rightarrow> string \<Rightarrow>
   ('e failure + unit) \<times> query_effect list" where
  "openQueryEditor createPage create notebooks type =
     (if type = ''notebook'' then
        (case find (\<lambda>notebook. title notebook = ''Uncategorized'') (list notebooks) of
           None \<Rightarrow> (Inl TypeError, [])
         | Some uncategorized \<Rightarrow>
             (case createPage (name uncategorized) of
                Inl err \<Rightarrow> (Inl (Rejection err), [CreatePage (name uncategorized)])
              | Inr page_name \<Rightarrow>
                  (Inr (), [CreatePage (name uncategorized),
                            Push ''NotebookPage''
                              [(''notebook'', name uncategorized), (''page'', page_name)]])))
      else
        (let is_visual = (if type = ''visual'' then Some 1 else None);
             new_query = (if type = ''classic'' then Some 0 else is_visual)
         in case create new_query of
              Inl err \<Rightarrow> (Inl (Rejection err), [CreateQuery new_query])
            | Inr query \<Rightarrow>
                (Inr (), [CreateQuery new_query, Push ''QueryBuilder'' [(''name'', name query)]])))"

text \<open>An example \<open>createPage\<close> and \<open>create\<close>, to run the model: both calls resolve.\<close>

definition example_createPage :: "string \<Rightarrow> unit + string" where
  "example_createPage notebook_name = Inr (notebook_name @ ''-page-1'')"

definition example_create :: "nat option \<Rightarrow> unit + row" where
  "example_create new_query = Inr \<lparr>name = ''QRY-0001'', title = ''''\<rparr>"

section \<open>Type-selector dialog (NewDialogWithTypes.vue)\<close>

text \<open>
  An entry of the \<open>types\<close> prop: label, icon, description, optional tag, and the
  handler, a function of the caller's (type \<open>'h\<close>: the dialog only calls it).
\<close>

record 'h dialog_type =
  type_label :: string
  icon :: string
  description :: string
  tag :: "string option"
  handler :: 'h

text \<open>The props \<open>show\<close> and \<open>types\<close>.  Props are read-only for the component: it
  changes \<open>show\<close> only by emitting \<open>update:show\<close> to its parent.\<close>

record 'h dialog_props =
  show_prop :: bool
  types :: "'h dialog_type list"

text \<open>What the component does to the outside: it calls a handler with a list of
  arguments, or emits \<open>update:show\<close> with a value.\<close>

datatype 'h dialog_effect = CallHandler 'h "string list" | EmitUpdateShow bool

text \<open>
  The component's two event sources: a click on the entry rendered for
  \<open>types[index]\<close> (\<^verbatim>\<open>@click="type.handler()"\<close>), and the inner \<open>Dialog\<close>
  writing its \<open>v-model\<close> (the setter \<^verbatim>\<open>(value) => emit('update:show', value)\<close>).
  \<open>v-for\<close> renders an entry for the indices below \<open>types.length\<close> only.
\<close>

datatype dialog_event = Click nat | SetShow bool

fun dialog_handle :: "'h dialog_props \<Rightarrow> dialog_event \<Rightarrow> 'h dialog_effect list" where
  "dialog_handle props (Click index) =
     (if index < length (types props)
      then [CallHandler (handler (types props ! index)) []] else [])"
| "dialog_handle props (SetShow v) = [EmitUpdateShow v]"

section \<open>Properties of the dashboard options\<close>










text \<open>
  C9.  Evaluating \<open>dashboardOptions\<close> is not read-only: the list the shared
  dashboards resource holds afterwards is the sorted list, since \<open>sort\<close> works on
  \<open>dashboards.list\<close> itself; on the list with titles \<open>Sales\<close>, \<open>accounts\<close> the
  evaluation swaps the two rows of the resource.
\<close>

theorem dashboardOptions_sorts_resource_in_place:
  "list (snd (dashboardOptions ds)) = array_sort title_compare (list ds)
   \<and> list (snd (dashboardOptions
        \<lparr>list = [\<lparr>name = ''d1'', title = ''Sales''\<rparr>, \<lparr>name = ''d2'', title = ''accounts''\<rparr>]\<rparr>))
      = [\<lparr>name = ''d2'', title = ''accounts''\<rparr>, \<lparr>name = ''d1'', title = ''Sales''\<rparr>]"
proof
  show "list (snd (dashboardOptions ds)) = array_sort title_compare (list ds)"
    by (simp add: dashboardOptions_def Let_def)
  show "list (snd (dashboardOptions
        \<lparr>list = [\<lparr>name = ''d1'', title = ''Sales''\<rparr>, \<lparr>name = ''d2'', title = ''accounts''\<rparr>]\<rparr>))
      = [\<lparr>name = ''d2'', title = ''accounts''\<rparr>, \<lparr>name = ''d1'', title = ''Sales''\<rparr>]"
    by code_simp
qed

section \<open>Properties of document resources\<close>

lemma triggerFetch_loading: "loading (get r) \<Longrightarrow> triggerFetch r = r"
  by (simp add: triggerFetch_def)

lemma single_flight_step: "single_flight r \<Longrightarrow> single_flight (resource_step r ev)"
  by (cases ev) (auto simp: single_flight_def triggerFetch_def fetch_def settle_def)

lemma single_flight_run: "single_flight r \<Longrightarrow> single_flight (resource_run r evs)"
  unfolding resource_run_def
  by (induction evs arbitrary: r) (simp_all add: single_flight_step)

lemma single_flight_fresh: "single_flight (getDocumentResource m doctype docname opts)"
  by (simp add: single_flight_def getDocumentResource_def createDocumentResource_def)

text \<open>
  C1.  For every document resource returned by \<open>getDocumentResource\<close>, after any
  sequence of \<open>triggerFetch\<close> calls and settlements: if the loading flag of \<open>get\<close>
  is up, \<open>triggerFetch\<close> changes nothing (no further remote call is issued), and
  at most one fetch is in flight.
\<close>

theorem triggerFetch_while_loading_noop:
  fixes getWhitelistedMethods :: "string \<Rightarrow> 'm" and doctype docname opts evs
  defines "r \<equiv> resource_run (getDocumentResource getWhitelistedMethods doctype docname opts) evs"
  shows "(loading (get r) \<longrightarrow>
            triggerFetch r = r \<and> issued (get (triggerFetch r)) = issued (get r))
         \<and> inflight (get r) \<le> 1
         \<and> inflight (get (triggerFetch r)) \<le> 1"
proof -
  have sf: "single_flight r"
    unfolding r_def by (rule single_flight_run) (rule single_flight_fresh)
  have "single_flight (resource_step r TriggerFetch)"
    using sf by (rule single_flight_step)
  then have "inflight (get (triggerFetch r)) \<le> 1"
    by (simp add: single_flight_def)
  moreover have "inflight (get r) \<le> 1"
    using sf by (simp add: single_flight_def)
  ultimately show ?thesis
    by (simp add: triggerFetch_loading)
qed

theorem triggerFetch_while_loading_noop_witness:
  "loading (get (resource_run (getDocumentResource example_methods ''Insights Query'' None None)
                  [TriggerFetch, Settle, TriggerFetch]))
   \<and> triggerFetch (resource_run (getDocumentResource example_methods ''Insights Query'' None None)
                  [TriggerFetch, Settle, TriggerFetch])
     = resource_run (getDocumentResource example_methods ''Insights Query'' None None)
                  [TriggerFetch, Settle, TriggerFetch]
   \<and> issued (get (resource_run (getDocumentResource example_methods ''Insights Query'' None None)
                  [TriggerFetch, Settle, TriggerFetch, TriggerFetch])) = 2
   \<and> inflight (get (resource_run (getDocumentResource example_methods ''Insights Query'' None None)
                  [TriggerFetch, Settle, TriggerFetch, TriggerFetch])) \<le> 1"
proof -
  let ?r = "resource_run (getDocumentResource example_methods ''Insights Query'' None None)
              [TriggerFetch, Settle, TriggerFetch]"
  have l: "loading (get ?r)"
    by (simp add: resource_run_def getDocumentResource_def createDocumentResource_def
        triggerFetch_def fetch_def settle_def)
  have i: "issued (get ?r) = 2"
    by (simp add: resource_run_def getDocumentResource_def createDocumentResource_def
        triggerFetch_def fetch_def settle_def)
  have e: "resource_run (getDocumentResource example_methods ''Insights Query'' None None)
              [TriggerFetch, Settle, TriggerFetch, TriggerFetch] = triggerFetch ?r"
    by (simp add: resource_run_def)
  from triggerFetch_while_loading_noop
    [of example_methods "''Insights Query''" None None "[TriggerFetch, Settle, TriggerFetch]"] l i
  show ?thesis unfolding e by simp
qed

text \<open>
  C10 as first stated, that the name always defaults to the doctype and that the
  per-doctype methods are attached in every case, fails when \<open>options\<close> carries the keys
  itself: they are spread last.
\<close>

theorem getDocumentResource_defaults_counterexample:
  "config (getDocumentResource example_methods ''Insights Query'' None
             (Some [''name'' \<mapsto> Str ''QRY-0001'', ''whitelistedMethods'' \<mapsto> Methods []]))
          ''name'' \<noteq> Some (Str ''Insights Query'')
   \<and> config (getDocumentResource example_methods ''Insights Query'' None
             (Some [''name'' \<mapsto> Str ''QRY-0001'', ''whitelistedMethods'' \<mapsto> Methods []]))
          ''whitelistedMethods'' \<noteq> Some (Methods (example_methods ''Insights Query''))"
  by (simp add: getDocumentResource_def createDocumentResource_def resource_options_def
      spread_def example_methods_def)

text \<open>
  C10 (amended).  For every call to \<open>getDocumentResource\<close>: when \<open>docname\<close> is
  omitted or falsy and \<open>options\<close> has no key \<open>name\<close>, the resource is created
  with the doctype as its name; when \<open>options\<close> has no key \<open>whitelistedMethods\<close>,
  it is created with the per-doctype whitelisted methods; and every key of
  \<open>options\<close> is passed on with the value \<open>options\<close> gives it.
\<close>

theorem getDocumentResource_defaults:
  "(\<not> truthy docname \<and> spread opts ''name'' = None \<longrightarrow>
      config (getDocumentResource getWhitelistedMethods doctype docname opts) ''name''
        = Some (Str doctype))
   \<and> (spread opts ''whitelistedMethods'' = None \<longrightarrow>
      config (getDocumentResource getWhitelistedMethods doctype docname opts) ''whitelistedMethods''
        = Some (Methods (getWhitelistedMethods doctype)))
   \<and> (\<forall>v. spread opts key = Some v \<longrightarrow>
      config (getDocumentResource getWhitelistedMethods doctype docname opts) key = Some v)"
  by (cases docname)
    (auto simp: getDocumentResource_def createDocumentResource_def resource_options_def
      or_else_def map_add_def split: option.splits)

theorem getDocumentResource_defaults_witness:
  "\<not> truthy (Some '''') \<and> spread (Some [''auto'' \<mapsto> Opaque 1]) ''name'' = None
   \<and> spread (Some [''auto'' \<mapsto> Opaque 1 :: string list jsval]) ''whitelistedMethods'' = None
   \<and> spread (Some [''auto'' \<mapsto> Opaque 1 :: string list jsval]) ''auto'' = Some (Opaque 1)
   \<and> config (getDocumentResource example_methods ''Insights Query'' (Some '''')
         (Some [''auto'' \<mapsto> Opaque 1])) ''name'' = Some (Str ''Insights Query'')
   \<and> config (getDocumentResource example_methods ''Insights Query'' (Some '''')
         (Some [''auto'' \<mapsto> Opaque 1])) ''whitelistedMethods'' = Some (Methods [''run'', ''store''])
   \<and> config (getDocumentResource example_methods ''Insights Query'' (Some '''')
         (Some [''auto'' \<mapsto> Opaque 1])) ''auto'' = Some (Opaque 1)"
  using getDocumentResource_defaults [of "Some ''''" "Some [''auto'' \<mapsto> Opaque 1]"
      example_methods "''Insights Query''" "''auto''"]
  by (simp add: spread_def example_methods_def)

section \<open>Properties of the chart block set-up\<close>

text \<open>
  C2 as first stated, that a supplied \<open>chartName\<close> means no create call, fails for the
  empty string, which \<open>!props.chartName\<close> takes as missing: one chart is created
  and the block is not bound to the name supplied.
\<close>

theorem chart_setup_supplied_counterexample:
  "count_list (fst (chart_setup (Some '''') (Inr ''CHART-0001'' :: unit + string))) CreateChart = 1
   \<and> UseChart '''' \<notin> set (fst (chart_setup (Some '''') (Inr ''CHART-0001'' :: unit + string)))"
  by (simp add: create_and_bind_def)

text \<open>
  C2 (amended).  When the chart block is set up with no \<open>chartName\<close> prop, or
  with the empty string, it performs exactly one \<open>createChart\<close> call and, once
  the call returns an identifier, emits \<open>setChartName\<close> with it and binds the
  chart editor to it; when a non-empty \<open>chartName\<close> is supplied, it performs no
  create call and binds to the existing identifier.
\<close>

theorem chart_setup_create_or_bind:
  "(\<not> truthy chartName \<longrightarrow>
      count_list (fst (chart_setup chartName new_chart)) CreateChart = 1
      \<and> (\<forall>new_name. new_chart = Inr new_name \<longrightarrow>
            chart_setup chartName new_chart =
              ([CreateChart, EmitSetChartName new_name, UseChart new_name,
                EnableAutoSave, ProvideChart], Inr new_name)))
   \<and> (\<forall>existing. chartName = Some existing \<and> existing \<noteq> [] \<longrightarrow>
          chart_setup chartName new_chart
            = ([UseChart existing, EnableAutoSave, ProvideChart], Inr existing)
          \<and> count_list (fst (chart_setup chartName new_chart)) CreateChart = 0)"
  by (cases chartName; cases new_chart) (auto simp: create_and_bind_def bind_existing_def)

theorem chart_setup_create_or_bind_witness:
  "\<not> truthy None
   \<and> count_list (fst (chart_setup None (Inr ''CHART-0001'' :: unit + string))) CreateChart = 1
   \<and> chart_setup None (Inr ''CHART-0001'' :: unit + string) =
        ([CreateChart, EmitSetChartName ''CHART-0001'', UseChart ''CHART-0001'',
          EnableAutoSave, ProvideChart], Inr ''CHART-0001'')
   \<and> chart_setup (Some ''CHART-0002'') (Inr ''CHART-0001'' :: unit + string) =
        ([UseChart ''CHART-0002'', EnableAutoSave, ProvideChart], Inr ''CHART-0002'')
   \<and> count_list (fst (chart_setup (Some ''CHART-0002'') (Inr ''CHART-0001'' :: unit + string)))
        CreateChart = 0"
  using chart_setup_create_or_bind [of None "Inr ''CHART-0001'' :: unit + string"]
    chart_setup_create_or_bind [of "Some ''CHART-0002''" "Inr ''CHART-0001'' :: unit + string"]
  by simp

section \<open>Properties of the notebook delete dialog\<close>

lemma handleDelete_resolved:
  assumes "deleteNotebook (notebook page) = (None, nb)" and "reload (all_notebooks page) = (None, nbs)"
  shows "handleDelete deleteNotebook reload page =
           (None, page\<lparr>showDeleteDialog := False, notebook := nb, all_notebooks := nbs,
                        route := ''NotebookList'',
                        effects := effects page @ [DeleteNotebook, SetShowDeleteDialog False,
                                     ReloadNotebooks, RouterPush ''NotebookList'']\<rparr>)"
  using assms by (simp add: handleDelete_def Let_def)

text \<open>
  C3.  Confirming the delete dialog calls \<open>deleteNotebook\<close> on the bound notebook
  resource, then closes the dialog, then reloads the separate notebooks list,
  then navigates to the notebook list (when both calls resolve, exactly these
  four effects in this order; when one rejects, the effects up to that call).
  Cancelling only clears the dialog flag: no remote call, no navigation, and both
  resources are left as they were.
\<close>

theorem delete_dialog_confirm_cancel:
  "(deleteNotebook (notebook page) = (None, nb) \<and> reload (all_notebooks page) = (None, nbs) \<longrightarrow>
      handleDelete deleteNotebook reload page =
        (None, page\<lparr>showDeleteDialog := False, notebook := nb, all_notebooks := nbs,
                     route := ''NotebookList'',
                     effects := effects page @ [DeleteNotebook, SetShowDeleteDialog False,
                                  ReloadNotebooks, RouterPush ''NotebookList'']\<rparr>))
   \<and> (\<exists>rest. effects (snd (handleDelete deleteNotebook reload page)) = effects page @ rest
          \<and> rest \<in> {[DeleteNotebook],
                      [DeleteNotebook, SetShowDeleteDialog False, ReloadNotebooks],
                      [DeleteNotebook, SetShowDeleteDialog False, ReloadNotebooks,
                       RouterPush ''NotebookList'']})
   \<and> cancelDelete page = page\<lparr>showDeleteDialog := False,
                                 effects := effects page @ [SetShowDeleteDialog False]\<rparr>
   \<and> notebook (cancelDelete page) = notebook page
   \<and> all_notebooks (cancelDelete page) = all_notebooks page
   \<and> route (cancelDelete page) = route page
   \<and> \<not> showDeleteDialog (cancelDelete page)"
proof -
  have "\<exists>rest. effects (snd (handleDelete deleteNotebook reload page)) = effects page @ rest
          \<and> rest \<in> {[DeleteNotebook],
                      [DeleteNotebook, SetShowDeleteDialog False, ReloadNotebooks],
                      [DeleteNotebook, SetShowDeleteDialog False, ReloadNotebooks,
                       RouterPush ''NotebookList'']}"
    by (cases "deleteNotebook (notebook page)"; cases "reload (all_notebooks page)")
      (auto simp: handleDelete_def Let_def split: option.splits)
  then show ?thesis
    by (simp add: handleDelete_resolved cancelDelete_def)
qed

theorem delete_dialog_confirm_cancel_witness:
  "example_deleteNotebook [''page-1''] = (None, [])
   \<and> example_reload [''Uncategorized'', ''Sales''] = (None, [''Uncategorized''])
   \<and> handleDelete example_deleteNotebook example_reload
        \<lparr>showDeleteDialog = True, notebook = [''page-1''],
         all_notebooks = [''Uncategorized'', ''Sales''], route = ''Notebook'', effects = []\<rparr>
      = (None, \<lparr>showDeleteDialog = False, notebook = [],
         all_notebooks = [''Uncategorized''], route = ''NotebookList'',
         effects = [DeleteNotebook, SetShowDeleteDialog False, ReloadNotebooks,
                    RouterPush ''NotebookList'']\<rparr>)
   \<and> cancelDelete
        \<lparr>showDeleteDialog = True, notebook = [''page-1''],
         all_notebooks = [''Uncategorized'', ''Sales''], route = ''Notebook'', effects = []\<rparr>
      = \<lparr>showDeleteDialog = False, notebook = [''page-1''],
         all_notebooks = [''Uncategorized'', ''Sales''], route = ''Notebook'',
         effects = [SetShowDeleteDialog False]\<rparr>"
  using delete_dialog_confirm_cancel [of example_deleteNotebook
      "\<lparr>showDeleteDialog = True, notebook = [''page-1''],
         all_notebooks = [''Uncategorized'', ''Sales''], route = ''Notebook'', effects = []\<rparr>"
      "[]" example_reload "[''Uncategorized'']"]
  by (simp add: example_deleteNotebook_def example_reload_def)

section \<open>Properties of the toast\<close>

lemma elapse_before:
  "0 \<le> d \<Longrightarrow> d < timeout * 1000 \<Longrightarrow>
   elapse d (mounted timeout data) = (mounted timeout data)\<lparr>clock := d\<rparr>"
  by (simp add: elapse_def mounted_def data_def Let_def)

lemma elapse_after:
  "0 \<le> d \<Longrightarrow> timeout * 1000 \<le> d \<Longrightarrow>
   elapse d (mounted timeout data) = \<lparr>shown = False, clock = d, timers = [], fired = 1\<rparr>"
  by (simp add: elapse_def mounted_def data_def Let_def timer_callback_def)

lemma dismiss_before:
  "0 \<le> d \<Longrightarrow> d < timeout * 1000 \<Longrightarrow>
   dismiss (elapse d (mounted timeout data))
     = \<lparr>shown = False, clock = d, timers = [timeout * 1000], fired = 0\<rparr>"
  by (simp add: elapse_before) (simp add: mounted_def data_def dismiss_def)

lemma elapse_after_dismiss:
  "0 \<le> d \<Longrightarrow> d < timeout * 1000 \<Longrightarrow> timeout * 1000 \<le> d + d' \<Longrightarrow>
   elapse d' (dismiss (elapse d (mounted timeout data)))
     = \<lparr>shown = False, clock = d + d', timers = [], fired = 1\<rparr>"
  by (simp add: elapse_before) (simp add: elapse_def mounted_def data_def Let_def timer_callback_def dismiss_def)

text \<open>Time passing in two steps is time passing in one: the statements below about
  one stretch of time hold for any way of cutting it.\<close>

lemma foldl_timer_callback:
  "foldl (\<lambda>s due_at. timer_callback s) t due
     = t\<lparr>shown := (due = [] \<and> shown t), fired := fired t + length due\<rparr>"
  by (induction due arbitrary: t) (simp_all add: timer_callback_def)

lemma elapse_closed:
  "elapse d t =
     \<lparr>shown = (filter (\<lambda>due_at. due_at \<le> clock t + d) (timers t) = [] \<and> shown t),
      clock = clock t + d,
      timers = filter (\<lambda>due_at. \<not> due_at \<le> clock t + d) (timers t),
      fired = fired t + length (filter (\<lambda>due_at. due_at \<le> clock t + d) (timers t))\<rparr>"
  by (simp add: elapse_def Let_def foldl_timer_callback)

lemma length_filter_split:
  assumes "\<And>x. P x \<Longrightarrow> Q x"
  shows "length (filter P xs) + length (filter (\<lambda>x. \<not> P x \<and> Q x) xs) = length (filter Q xs)"
  using assms by (induction xs) auto

lemma elapse_elapse:
  assumes "0 \<le> d1" "0 \<le> d2"
  shows "elapse d2 (elapse d1 t) = elapse (d1 + d2) t"
proof -
  let ?P = "\<lambda>x. x \<le> clock t + d1" and ?Q = "\<lambda>x. x \<le> clock t + (d1 + d2)"
  have PQ: "\<And>x. ?P x \<Longrightarrow> ?Q x" using assms by simp
  have later: "filter (\<lambda>x. \<not> ?P x \<and> \<not> ?Q x) (timers t) = filter (\<lambda>x. \<not> ?Q x) (timers t)"
    using PQ by (auto intro!: filter_cong)
  have len: "length (filter ?P (timers t)) + length (filter (\<lambda>x. \<not> ?P x \<and> ?Q x) (timers t))
      = length (filter ?Q (timers t))"
    using PQ by (rule length_filter_split)
  have "(length (filter ?P (timers t)) = 0
            \<and> length (filter (\<lambda>x. \<not> ?P x \<and> ?Q x) (timers t)) = 0)
        = (length (filter ?Q (timers t)) = 0)"
    using len by linarith
  then have empty: "(filter ?P (timers t) = [] \<and> filter (\<lambda>x. \<not> ?P x \<and> ?Q x) (timers t) = [])
      = (filter ?Q (timers t) = [])"
    by (simp only: length_0_conv)
  have shown_eq: "(filter (\<lambda>x. \<not> ?P x \<and> ?Q x) (timers t) = [] \<and> filter ?P (timers t) = [] \<and> shown t)
      = (filter ?Q (timers t) = [] \<and> shown t)"
    using empty by blast
  show ?thesis
    unfolding elapse_closed [of d2] elapse_closed [of d1 t] elapse_closed [of "d1 + d2"]
    using len later shown_eq by (simp add: add.assoc)
qed

text \<open>
  C4.  For every toast with timeout \<open>t\<close>: \<open>shown\<close> is false before mount, true
  once mounted and as long as less than \<open>t\<close> seconds have passed, and false
  once \<open>t\<close> seconds have passed.  Dismissing sets \<open>shown\<close> to false at once
  and leaves the pending timer alone; when the timer is due its callback still
  runs, and changes nothing but the timer's own bookkeeping: \<open>shown\<close> stays
  false.
\<close>

theorem toast_shown_lifecycle:
  "\<not> shown data
   \<and> shown (mounted timeout data)
   \<and> (0 \<le> d \<and> d < timeout * 1000 \<longrightarrow> shown (elapse d (mounted timeout data)))
   \<and> (0 \<le> d \<and> timeout * 1000 \<le> d \<longrightarrow> \<not> shown (elapse d (mounted timeout data)))
   \<and> \<not> shown (dismiss t) \<and> timers (dismiss t) = timers t \<and> fired (dismiss t) = fired t
   \<and> (0 \<le> d \<and> d < timeout * 1000 \<and> timeout * 1000 \<le> d + d' \<longrightarrow>
        timers (dismiss (elapse d (mounted timeout data))) = [timeout * 1000]
        \<and> elapse d' (dismiss (elapse d (mounted timeout data)))
            = (dismiss (elapse d (mounted timeout data)))
                \<lparr>clock := d + d', timers := [], fired := 1\<rparr>)"
proof -
  have "\<not> shown data" "shown (mounted timeout data)"
    by (simp_all add: data_def mounted_def)
  moreover have "\<not> shown (dismiss t) \<and> timers (dismiss t) = timers t \<and> fired (dismiss t) = fired t"
    by (simp add: dismiss_def)
  moreover have "0 \<le> d \<and> d < timeout * 1000 \<and> timeout * 1000 \<le> d + d' \<longrightarrow>
        timers (dismiss (elapse d (mounted timeout data))) = [timeout * 1000]
        \<and> elapse d' (dismiss (elapse d (mounted timeout data)))
            = (dismiss (elapse d (mounted timeout data)))
                \<lparr>clock := d + d', timers := [], fired := 1\<rparr>"
    by (simp add: elapse_after_dismiss) (simp add: dismiss_before)
  ultimately show ?thesis
    by (simp add: elapse_before elapse_after)
qed

theorem toast_shown_lifecycle_witness:
  "shown (elapse 4999 (mounted 5 data))
   \<and> \<not> shown (elapse 5000 (mounted 5 data))
   \<and> \<not> shown (dismiss (elapse 2000 (mounted 5 data)))
   \<and> timers (dismiss (elapse 2000 (mounted 5 data))) = [5000]
   \<and> elapse 3000 (dismiss (elapse 2000 (mounted 5 data)))
        = \<lparr>shown = False, clock = 5000, timers = [], fired = 1\<rparr>"
  using toast_shown_lifecycle [of 5 4999 "elapse 2000 (mounted 5 data)" 0]
    toast_shown_lifecycle [of 5 5000 "elapse 2000 (mounted 5 data)" 0]
    toast_shown_lifecycle [of 5 2000 "elapse 2000 (mounted 5 data)" 3000]
  by (simp add: elapse_def mounted_def data_def dismiss_def Let_def)

lemma created_funpow:
  "(created ^^ n) document =
     (if n = 0 \<or> ''frappeui-toast-root'' \<in> set document then document
      else document @ [''frappeui-toast-root''])"
  by (induction n) (auto simp: created_def)

text \<open>
  C5.  After any number \<open>n\<close> of toast instantiations the document is the one
  before, with one root element \<open>frappeui-toast-root\<close> appended if there was
  none (and \<open>n > 0\<close>): nothing is removed, and from at most one root before,
  there is exactly one after the first instantiation.
\<close>

theorem toast_root_created_once:
  "(created ^^ n) document =
     (if n = 0 \<or> ''frappeui-toast-root'' \<in> set document then document
      else document @ [''frappeui-toast-root''])
   \<and> (0 < n \<and> count_list document ''frappeui-toast-root'' \<le> 1 \<longrightarrow>
        count_list ((created ^^ n) document) ''frappeui-toast-root'' = 1)"
proof -
  have "count_list document ''frappeui-toast-root'' = 0" if "''frappeui-toast-root'' \<notin> set document"
    using that by (simp add: count_list_0_iff)
  moreover have "count_list document ''frappeui-toast-root'' = 1"
    if "''frappeui-toast-root'' \<in> set document" "count_list document ''frappeui-toast-root'' \<le> 1"
    using that count_list_0_iff [of document "''frappeui-toast-root''"] by linarith
  ultimately show ?thesis
    by (auto simp: created_funpow)
qed

theorem toast_root_created_once_witness:
  "(created ^^ 3) [''app'', ''modals''] = [''app'', ''modals'', ''frappeui-toast-root'']
   \<and> count_list ((created ^^ 3) [''app'', ''modals'']) ''frappeui-toast-root'' = 1
   \<and> (created ^^ 2) [''app'', ''frappeui-toast-root''] = [''app'', ''frappeui-toast-root'']"
  using toast_root_created_once [of 3 "[''app'', ''modals'']"]
    toast_root_created_once [of 2 "[''app'', ''frappeui-toast-root'']"]
  by simp

section \<open>Properties of \<open>openQueryEditor\<close>\<close>

lemma find_None_titles:
  "(find (\<lambda>notebook. title notebook = ''Uncategorized'') rows = None)
     = (''Uncategorized'' \<notin> set (map title rows))"
  by (force simp: find_None_iff)

text \<open>
  C6.  \<open>openQueryEditor('notebook')\<close> looks up the first notebook titled
  \<open>Uncategorized\<close> and reads its name without a guard: the call fails with a
  \<open>TypeError\<close> exactly when the notebooks list has no notebook with that
  title.  When it has one, a page is created in the notebook found and, once
  \<open>createPage\<close> resolves, the router goes to that page of that notebook.
\<close>

theorem openQueryEditor_notebook_needs_uncategorized:
  "(fst (openQueryEditor createPage create notebooks ''notebook'') = Inl TypeError)
      = (''Uncategorized'' \<notin> set (map title (list notebooks)))
   \<and> (find (\<lambda>notebook. title notebook = ''Uncategorized'') (list notebooks) = Some uncategorized
        \<and> createPage (name uncategorized) = Inr page_name \<longrightarrow>
      openQueryEditor createPage create notebooks ''notebook''
        = (Inr (), [CreatePage (name uncategorized),
                    Push ''NotebookPage''
                      [(''notebook'', name uncategorized), (''page'', page_name)]]))
   \<and> (''Uncategorized'' \<in> set (map title (list notebooks)) \<longrightarrow>
        (\<exists>uncategorized \<in> set (list notebooks). title uncategorized = ''Uncategorized''
           \<and> hd (snd (openQueryEditor createPage create notebooks ''notebook''))
               = CreatePage (name uncategorized)))"
proof -
  let ?f = "find (\<lambda>notebook. title notebook = ''Uncategorized'') (list notebooks)"
  have a: "(fst (openQueryEditor createPage create notebooks ''notebook'') = Inl TypeError)
      = (''Uncategorized'' \<notin> set (map title (list notebooks)))"
    unfolding find_None_titles [symmetric]
    by (simp add: openQueryEditor_def split: option.splits sum.splits)
  have c: "\<exists>uncategorized \<in> set (list notebooks). title uncategorized = ''Uncategorized''
           \<and> hd (snd (openQueryEditor createPage create notebooks ''notebook''))
               = CreatePage (name uncategorized)"
    if "''Uncategorized'' \<in> set (map title (list notebooks))"
  proof -
    from that obtain u where u: "?f = Some u"
      using find_None_titles [of "list notebooks"] by auto
    then have "u \<in> set (list notebooks)" "title u = ''Uncategorized''"
      by (auto simp: find_Some_iff)
    moreover have "hd (snd (openQueryEditor createPage create notebooks ''notebook''))
               = CreatePage (name u)"
      using u by (simp add: openQueryEditor_def split: sum.splits)
    ultimately show ?thesis by blast
  qed
  show ?thesis
    using a c by (simp add: openQueryEditor_def)
qed

theorem openQueryEditor_notebook_needs_uncategorized_witness:
  "fst (openQueryEditor example_createPage example_create
          \<lparr>list = [\<lparr>name = ''nb-1'', title = ''Sales''\<rparr>]\<rparr> ''notebook'') = Inl TypeError
   \<and> openQueryEditor example_createPage example_create
        \<lparr>list = [\<lparr>name = ''nb-1'', title = ''Sales''\<rparr>,
                 \<lparr>name = ''nb-2'', title = ''Uncategorized''\<rparr>]\<rparr> ''notebook''
      = (Inr (), [CreatePage ''nb-2'',
                  Push ''NotebookPage'' [(''notebook'', ''nb-2''), (''page'', ''nb-2-page-1'')]])"
  using openQueryEditor_notebook_needs_uncategorized
      [of example_createPage example_create "\<lparr>list = [\<lparr>name = ''nb-1'', title = ''Sales''\<rparr>]\<rparr>"]
    openQueryEditor_notebook_needs_uncategorized
      [of example_createPage example_create
        "\<lparr>list = [\<lparr>name = ''nb-1'', title = ''Sales''\<rparr>,
                 \<lparr>name = ''nb-2'', title = ''Uncategorized''\<rparr>]\<rparr>"
        "\<lparr>name = ''nb-2'', title = ''Uncategorized''\<rparr>" "''nb-2-page-1''"]
  by (simp add: example_createPage_def)

section \<open>Properties of the type-selector dialog\<close>

text \<open>
  C8.  A click on the entry of \<open>types[index]\<close> calls that entry's handler, once
  and with no arguments, and nothing else; in particular the click emits no
  \<open>update:show\<close>, the component's only way to change the dialog's visibility.
\<close>

theorem type_click_calls_handler_only:
  "(index < length (types props) \<longrightarrow>
      dialog_handle props (Click index) = [CallHandler (handler (types props ! index)) []])
   \<and> EmitUpdateShow v \<notin> set (dialog_handle props (Click index))"
  by simp

theorem type_click_calls_handler_only_witness:
  "dialog_handle
     \<lparr>show_prop = True,
      types = [\<lparr>type_label = ''Notebook'', icon = ''book'',
                description = ''Create a query using the notebook interface'',
                tag = Some ''beta'', handler = ''notebook''\<rparr>,
               \<lparr>type_label = ''Classic'', icon = ''layout'',
                description = ''Create a query using the classic interface'',
                tag = None, handler = ''classic''\<rparr>]\<rparr>
     (Click 1) = [CallHandler ''classic'' []]"
  using type_click_calls_handler_only [of 1
     "\<lparr>show_prop = True,
      types = [\<lparr>type_label = ''Notebook'', icon = ''book'',
                description = ''Create a query using the notebook interface'',
                tag = Some ''beta'', handler = ''notebook''\<rparr>,
               \<lparr>type_label = ''Classic'', icon = ''layout'',
                description = ''Create a query using the classic interface'',
                tag = None, handler = ''classic''\<rparr>]\<rparr>"]
  by simp

end
